theory Spec2Isabelle
  imports Main "HOL-Library.Sublist" "HOL-Library.Multiset"
begin

section \<open>Exceptions\<close>

text \<open>
  Every exception the two modules can let escape is a value of one datatype. They are
  raised by the interpreter (\<open>AttributeError\<close> on a method of \<open>None\<close>, \<open>KeyError\<close>
  from \<open>dict.pop\<close>, \<open>ValueError\<close> from \<open>list.remove\<close>, \<open>IndexError\<close> on a read of an
  empty list, \<open>SystemExit\<close> by the builtin \<open>exit\<close>, \<open>KeyboardInterrupt\<close>), by the event
  loop (\<open>CancelledError\<close>, thrown into a task that is cancelled while it awaits), by
  the database driver (\<open>PostgresError\<close>, \<open>InterfaceError\<close>,
  \<open>ConnectionDoesNotExistError\<close>), by the message bus client (\<open>JSONDecodeError\<close>,
  \<open>RedisError\<close>) or by a handler supplied by the bot (\<open>HandlerError\<close>).
\<close>

datatype exn =
    AttributeError string
  | KeyError string
  | ValueError
  | IndexError
  | SystemExit int
  | KeyboardInterrupt
  | CancelledError
  | PostgresError string
  | InterfaceError string
  | ConnectionDoesNotExistError
  | JSONDecodeError
  | RedisError string
  | HandlerError nat

text \<open>
  \<open>except Exception\<close> catches the instances of \<open>Exception\<close>. \<open>SystemExit\<close>,
  \<open>KeyboardInterrupt\<close> and, since Python 3.8, \<open>CancelledError\<close> derive from
  \<open>BaseException\<close> alone.
\<close>

fun is_exception :: "exn \<Rightarrow> bool" where
  "is_exception (SystemExit n) = False"
| "is_exception KeyboardInterrupt = False"
| "is_exception CancelledError = False"
| "is_exception e = True"

section \<open>cogs/utils/database.py\<close>

subsection \<open>Statement classification\<close>

text \<open>
  The text of a statement is a string of bytes, the UTF-8 form of the Python string.
  \<open>str.casefold\<close> is the interpreter's: it is a parameter \<open>cf\<close> of everything that
  classifies a statement, and what is proved holds for every such function.
\<close>

text \<open>Python's \<open>needle in haystack\<close> on strings: a contiguous occurrence.\<close>

fun contains :: "string \<Rightarrow> string \<Rightarrow> bool" where
  "contains needle [] = (needle = [])"
| "contains needle (c # cs) = (prefix needle (c # cs) \<or> contains needle cs)"

text \<open>The test of lines 80 and 89.\<close>

definition is_read :: "(string \<Rightarrow> string) \<Rightarrow> string \<Rightarrow> bool" where
  "is_read cf sql = (contains ''select'' (cf sql) \<or> contains ''returning'' (cf sql))"

text \<open>
  What \<open>str.casefold\<close> does on a text of ASCII characters: the letters A to Z are
  lowered, every other character is left alone. It stands for \<open>cf\<close> where a definition
  is run on the ASCII statements of this module.
\<close>

definition casefold_ascii_char :: "char \<Rightarrow> char" where
  "casefold_ascii_char c =
     (let n = (of_char c :: nat) in if 65 \<le> n \<and> n \<le> 90 then char_of (n + 32) else c)"

definition casefold_ascii :: "string \<Rightarrow> string" where
  "casefold_ascii s = map casefold_ascii_char s"

subsection \<open>The driver's connection\<close>

text \<open>
  The wrapper talks to an \<open>asyncpg\<close> connection, which is not part of the repository.
  It enters the model as a parameter: a record of the methods the wrapper calls, each a
  function of the connection's state \<open>'c\<close> that returns the outcome of the call and the
  next state. \<open>'t\<close> is the type of the driver's transaction objects and \<open>'r\<close> the type of
  a row record. A call that raises returns the exception.
\<close>

datatype param = IntParam int | TimeParam nat

record ('c, 't, 'r) connection_api =
  conn_fetch :: "string \<Rightarrow> param list \<Rightarrow> 'c \<Rightarrow> (exn + 'r list) \<times> 'c"
  conn_execute :: "string \<Rightarrow> param list \<Rightarrow> 'c \<Rightarrow> exn option \<times> 'c"
  conn_transaction :: "'c \<Rightarrow> (exn + 't) \<times> 'c"
  tx_start :: "'t \<Rightarrow> 'c \<Rightarrow> exn option \<times> 'c"
  tx_commit :: "'t \<Rightarrow> 'c \<Rightarrow> exn option \<times> 'c"
  tx_rollback :: "'t \<Rightarrow> 'c \<Rightarrow> exn option \<times> 'c"

subsection \<open>The logger of the class\<close>

text \<open>
  The class attribute \<open>logger\<close> is \<open>None\<close> until the application sets it, and then
  the list of the records written to it. A method of \<open>None\<close> raises \<open>AttributeError\<close>.
\<close>

datatype log_record = Debug string "param list" | Critical string

type_synonym logger = "log_record list option"

definition logger_debug :: "string \<Rightarrow> param list \<Rightarrow> logger \<Rightarrow> exn + logger" where
  "logger_debug sql args lg =
     (case lg of
        None \<Rightarrow> Inl (AttributeError ''debug'')
      | Some records \<Rightarrow> Inr (Some (records @ [Debug sql args])))"

definition logger_critical :: "string \<Rightarrow> logger \<Rightarrow> exn + logger" where
  "logger_critical msg lg =
     (case lg of
        None \<Rightarrow> Inl (AttributeError ''critical'')
      | Some records \<Rightarrow> Inr (Some (records @ [Critical msg])))"

subsection \<open>The wrapper object\<close>

text \<open>
  An instance has the two slots \<open>conn\<close> and \<open>transaction\<close>. The instance owns its
  connection while it holds it, so the slot carries the connection's state.
\<close>

record ('c, 't) lease =
  conn :: "'c option"
  transaction :: "'t option"

text \<open>
  \<open>__call__\<close>, lines 74 to 91. Line 79 writes to the logger before anything else. The
  result is \<open>None\<close> where Python returns \<open>None\<close> and \<open>Some rows\<close> where it returns a
  list; a list is truthy when it is not empty. With no connection in the slot the
  attribute lookup on \<open>None\<close> raises.
\<close>

definition call ::
  "('c, 't, 'r) connection_api \<Rightarrow> (string \<Rightarrow> string) \<Rightarrow> string \<Rightarrow> param list
     \<Rightarrow> ('c, 't) lease \<Rightarrow> logger \<Rightarrow> (exn + 'r list option) \<times> ('c, 't) lease \<times> logger" where
  "call api cf sql args self lg =
     (case logger_debug sql args lg of
        Inl e \<Rightarrow> (Inl e, self, lg)
      | Inr lg' \<Rightarrow>
          (if is_read cf sql then
             (case conn self of
                None \<Rightarrow> (Inl (AttributeError ''fetch''), self, lg')
              | Some c \<Rightarrow>
                  (case conn_fetch api sql args c of
                     (Inl e, c') \<Rightarrow> (Inl e, self\<lparr>conn := Some c'\<rparr>, lg')
                   | (Inr x, c') \<Rightarrow>
                       (if x \<noteq> [] then (Inr (Some x), self\<lparr>conn := Some c'\<rparr>, lg')
                        else if is_read cf sql then (Inr (Some []), self\<lparr>conn := Some c'\<rparr>, lg')
                        else (Inr None, self\<lparr>conn := Some c'\<rparr>, lg'))))
           else
             (case conn self of
                None \<Rightarrow> (Inl (AttributeError ''execute''), self, lg')
              | Some c \<Rightarrow>
                  (case conn_execute api sql args c of
                     (Some e, c') \<Rightarrow> (Inl e, self\<lparr>conn := Some c'\<rparr>, lg')
                   | (None, c') \<Rightarrow> (Inr None, self\<lparr>conn := Some c'\<rparr>, lg')))))"

text \<open>
  \<open>start_transaction\<close>, lines 53 to 57: the slot is overwritten with the transaction
  object the connection returns, before that object is started. There is no test of the
  slot. When the connection raises instead of returning an object the assignment does
  not happen.
\<close>

definition start_transaction ::
  "('c, 't, 'r) connection_api \<Rightarrow> ('c, 't) lease \<Rightarrow> exn option \<times> ('c, 't) lease" where
  "start_transaction api self =
     (case conn self of
        None \<Rightarrow> (Some (AttributeError ''transaction''), self)
      | Some c \<Rightarrow>
          (case conn_transaction api c of
             (Inl e, c') \<Rightarrow> (Some e, self\<lparr>conn := Some c'\<rparr>)
           | (Inr t, c') \<Rightarrow>
               (case tx_start api t c' of
                  (r, c'') \<Rightarrow> (r, self\<lparr>conn := Some c'', transaction := Some t\<rparr>))))"

text \<open>
  \<open>commit_transaction\<close>, lines 59 to 63: the slot is cleared only when the commit
  returns. A transaction object acts on the connection it was made from; once the
  wrapper has given that connection back, the driver refuses the call.
\<close>

definition commit_transaction ::
  "('c, 't, 'r) connection_api \<Rightarrow> ('c, 't) lease \<Rightarrow> exn option \<times> ('c, 't) lease" where
  "commit_transaction api self =
     (case transaction self of
        None \<Rightarrow> (Some (AttributeError ''commit''), self)
      | Some t \<Rightarrow>
          (case conn self of
             None \<Rightarrow> (Some (InterfaceError ''connection released''), self)
           | Some c \<Rightarrow>
               (case tx_commit api t c of
                  (Some e, c') \<Rightarrow> (Some e, self\<lparr>conn := Some c'\<rparr>)
                | (None, c') \<Rightarrow> (None, self\<lparr>conn := Some c', transaction := None\<rparr>))))"

subsection \<open>\<open>marry\<close>\<close>

text \<open>
  An argument is a user id or a user object with an \<open>id\<close> attribute;
  \<open>getattr(x, "id", x)\<close> reads the attribute where there is one.
\<close>

datatype user_ref = UserId int | User int string

fun getattr_id :: "user_ref \<Rightarrow> int" where
  "getattr_id (UserId n) = n"
| "getattr_id (User n name) = n"

text \<open>
  \<open>dt.utcnow()\<close> reads the clock. The clock is a counter of readings: a reading returns
  the counter and moves it on, so two readings never return the same value.
\<close>

type_synonym clock = nat

definition utcnow :: "clock \<Rightarrow> nat \<times> clock" where
  "utcnow k = (k, Suc k)"

definition insert_1 :: string where
  "insert_1 = ''INSERT INTO marriages (user_id, partner_id, guild_id, timestamp) VALUES ($1, $2, $3, $4)''"

definition insert_2 :: string where
  "insert_2 = ''INSERT INTO marriages (user_id, partner_id, guild_id, timestamp) VALUES ($2, $1, $3, $4)''"

text \<open>The body of the \<open>try\<close>, lines 107 to 120: the second statement runs only after the
  first has returned.\<close>

definition marry_inserts ::
  "('c, 't, 'r) connection_api \<Rightarrow> (string \<Rightarrow> string) \<Rightarrow> param list \<Rightarrow> ('c, 't) lease \<Rightarrow> logger
     \<Rightarrow> exn option \<times> ('c, 't) lease \<times> logger" where
  "marry_inserts api cf args self lg =
     (case call api cf insert_1 args self lg of
        (Inl e, s, lg') \<Rightarrow> (Some e, s, lg')
      | (Inr x, s, lg') \<Rightarrow>
          (case call api cf insert_2 args s lg' of
             (Inl e, s', lg'') \<Rightarrow> (Some e, s', lg'')
           | (Inr y, s', lg'') \<Rightarrow> (None, s', lg'')))"

text \<open>
  The handler of the \<open>except\<close>, lines 122 and 123: \<open>raise e\<close> is reached only when the
  rollback has returned; an exception raised by the rollback leaves the handler in its
  place. The slot is not cleared.
\<close>

definition marry_except ::
  "('c, 't, 'r) connection_api \<Rightarrow> exn \<Rightarrow> ('c, 't) lease \<Rightarrow> exn option \<times> ('c, 't) lease" where
  "marry_except api e self =
     (case transaction self of
        None \<Rightarrow> (Some (AttributeError ''rollback''), self)
      | Some t \<Rightarrow>
          (case conn self of
             None \<Rightarrow> (Some (InterfaceError ''connection released''), self)
           | Some c \<Rightarrow>
               (case tx_rollback api t c of
                  (Some r, c') \<Rightarrow> (Some r, self\<lparr>conn := Some c'\<rparr>)
                | (None, c') \<Rightarrow> (Some e, self\<lparr>conn := Some c'\<rparr>))))"

text \<open>
  \<open>marry\<close>, lines 93 to 124. The outcome \<open>None\<close> is a normal return. Line 121 is
  \<open>except Exception\<close>: an exception of the body that is no \<open>Exception\<close> goes to the
  caller at once, and the handler, with its rollback, does not run.
\<close>

definition marry ::
  "('c, 't, 'r) connection_api \<Rightarrow> (string \<Rightarrow> string) \<Rightarrow> user_ref \<Rightarrow> user_ref \<Rightarrow> int
     \<Rightarrow> ('c, 't) lease \<Rightarrow> logger \<Rightarrow> clock \<Rightarrow> exn option \<times> ('c, 't) lease \<times> logger \<times> clock" where
  "marry api cf instigator target guild_id self lg clk =
     (let instigator_id = getattr_id instigator;
          target_id = getattr_id target
      in case start_transaction api self of
           (Some e, s) \<Rightarrow> (Some e, s, lg, clk)
         | (None, s) \<Rightarrow>
             (case utcnow clk of
                (timestamp, clk') \<Rightarrow>
                  (let args = [IntParam instigator_id, IntParam target_id,
                               IntParam guild_id, TimeParam timestamp]
                   in case marry_inserts api cf args s lg of
                        (Some e, s', lg') \<Rightarrow>
                          (if is_exception e
                           then (case marry_except api e s' of (r, s'') \<Rightarrow> (r, s'', lg', clk'))
                           else (Some e, s', lg', clk'))
                      | (None, s', lg') \<Rightarrow>
                          (case commit_transaction api s' of (r, s'') \<Rightarrow> (r, s'', lg', clk')))))"

subsection \<open>The pool\<close>

text \<open>
  The class holds \<open>config\<close>, \<open>pool\<close> and \<open>logger\<close>, all three \<open>None\<close> at first. A
  configuration is a dictionary of Python values. The pool \<open>'p\<close> is the driver's, and
  its constructor and its \<open>release\<close> are parameters.
\<close>

datatype pyval = PyNone | PyBool bool | PyInt int | PyStr string

type_synonym config = "string \<rightharpoonup> pyval"

record 'p db_class =
  config :: "config option"
  pool :: "'p option"
  logger :: logger

text \<open>
  \<open>create_pool\<close>, lines 26 to 37. \<open>pop\<close> raises \<open>KeyError\<close> on a missing key; \<open>is False\<close>
  holds for the boolean \<open>False\<close> alone; line 33 writes to the logger, and \<open>exit(1)\<close>
  raises \<open>SystemExit(1)\<close> when that has returned.
\<close>

definition create_pool ::
  "(config \<Rightarrow> exn + 'p) \<Rightarrow> config \<Rightarrow> 'p db_class \<Rightarrow> exn option \<times> 'p db_class" where
  "create_pool asyncpg_create_pool cfg cls =
     (let cls1 = cls\<lparr>config := Some cfg\<rparr> in
      case cfg ''enabled'' of
        None \<Rightarrow> (Some (KeyError ''enabled''), cls1)
      | Some v \<Rightarrow>
          (let modified_config = cfg(''enabled'' := None) in
           if v = PyBool False then
             (case logger_critical
                     ''Database create pool method is being run when the database is disabled''
                     (logger cls1) of
                Inl e \<Rightarrow> (Some e, cls1)
              | Inr lg \<Rightarrow> (Some (SystemExit 1), cls1\<lparr>logger := lg\<rparr>))
           else
             (case asyncpg_create_pool modified_config of
                Inl e \<Rightarrow> (Some e, cls1)
              | Inr p \<Rightarrow> (None, cls1\<lparr>pool := Some p\<rparr>))))"

text \<open>\<open>get_connection\<close>, lines 39 to 44.\<close>

definition get_connection ::
  "('p \<Rightarrow> (exn + 'c) \<times> 'p) \<Rightarrow> 'p db_class \<Rightarrow> (exn + ('c, 't) lease) \<times> 'p db_class" where
  "get_connection pool_acquire cls =
     (case pool cls of
        None \<Rightarrow> (Inl (AttributeError ''acquire''), cls)
      | Some p \<Rightarrow>
          (case pool_acquire p of
             (Inl e, p') \<Rightarrow> (Inl e, cls\<lparr>pool := Some p'\<rparr>)
           | (Inr c, p') \<Rightarrow> (Inr \<lparr>conn = Some c, transaction = None\<rparr>, cls\<lparr>pool := Some p'\<rparr>)))"

text \<open>
  \<open>disconnect\<close>, lines 46 to 51: the connection in the slot goes back to the pool and
  the slot is cleared. The \<open>transaction\<close> slot is neither read nor written.
\<close>

definition disconnect ::
  "('c option \<Rightarrow> 'p \<Rightarrow> exn option \<times> 'p) \<Rightarrow> 'p db_class \<Rightarrow> ('c, 't) lease
     \<Rightarrow> exn option \<times> 'p db_class \<times> ('c, 't) lease" where
  "disconnect pool_release cls self =
     (case pool cls of
        None \<Rightarrow> (Some (AttributeError ''release''), cls, self)
      | Some p \<Rightarrow>
          (case pool_release (conn self) p of
             (Some e, p') \<Rightarrow> (Some e, cls\<lparr>pool := Some p'\<rparr>, self)
           | (None, p') \<Rightarrow> (None, cls\<lparr>pool := Some p'\<rparr>, self\<lparr>conn := None\<rparr>)))"

subsection \<open>A reference engine\<close>

text \<open>
  A small relational engine behind the driver's interface, so that the effect of the
  wrapper on the rows can be stated. It is one connection's view of a database holding
  the \<open>marriages\<close> table:
  \<^item> \<open>committed\<close> is the table every other reader sees, \<open>work\<close> the table as this
    connection sees it;
  \<^item> \<open>saved\<close> holds, innermost first, the open transactions with the snapshot each one
    rolls back to (a transaction started inside another is a savepoint);
  \<^item> \<open>lifetime\<close> is the number of further round trips the link survives (\<open>None\<close>:
    it never breaks). The round trip that breaks the link raises, and the server drops
    every open transaction with what it has done; on a broken link every call raises;
  \<^item> \<open>received\<close> lists the statements the engine was sent, with their arguments.
  The constraint that makes an insert fail is a parameter \<open>chk\<close>, which names the
  constraint a row violates: the table's schema is not in the repository. Every error
  of the engine is one of the driver's, and so an \<open>Exception\<close>.
\<close>

type_synonym marriage = "int \<times> int \<times> int \<times> nat"

record pg =
  committed :: "marriage list"
  work :: "marriage list"
  saved :: "(nat \<times> marriage list) list"
  next_tx :: nat
  alive :: bool
  lifetime :: "nat option"
  received :: "(string \<times> param list) list"

definition round_trip :: "pg \<Rightarrow> exn option \<times> pg" where
  "round_trip d =
     (if \<not> alive d then (Some (InterfaceError ''connection is closed''), d)
      else case lifetime d of
             None \<Rightarrow> (None, d)
           | Some 0 \<Rightarrow>
               (Some ConnectionDoesNotExistError,
                d\<lparr>alive := False, work := committed d, saved := []\<rparr>)
           | Some (Suc n) \<Rightarrow> (None, d\<lparr>lifetime := Some n\<rparr>))"

text \<open>The row an \<open>INSERT\<close> of \<open>marry\<close> stands for: \<open>$1\<close> to \<open>$4\<close> are the arguments in
  order.\<close>

definition insert_row :: "string \<Rightarrow> param list \<Rightarrow> marriage option" where
  "insert_row sql args =
     (case args of
        [IntParam a, IntParam b, IntParam g, TimeParam ts] \<Rightarrow>
          (if sql = insert_1 then Some (a, b, g, ts)
           else if sql = insert_2 then Some (b, a, g, ts)
           else None)
      | _ \<Rightarrow> None)"

definition pg_execute ::
  "(marriage list \<Rightarrow> marriage \<Rightarrow> string option) \<Rightarrow> string \<Rightarrow> param list \<Rightarrow> pg
     \<Rightarrow> exn option \<times> pg" where
  "pg_execute chk sql args d =
     (case round_trip d of
        (Some e, d1) \<Rightarrow> (Some e, d1)
      | (None, d1) \<Rightarrow>
          (let d2 = d1\<lparr>received := received d1 @ [(sql, args)]\<rparr> in
           case insert_row sql args of
             None \<Rightarrow> (Some (PostgresError ''syntax error''), d2)
           | Some row \<Rightarrow>
               (case chk (work d2) row of
                  Some violated \<Rightarrow> (Some (PostgresError violated), d2)
                | None \<Rightarrow>
                    (None, d2\<lparr>work := work d2 @ [row],
                              committed := (if saved d2 = [] then committed d2 @ [row]
                                            else committed d2)\<rparr>))))"

definition select_guild :: string where
  "select_guild = ''SELECT * FROM marriages WHERE guild_id = $1''"

definition pg_fetch :: "string \<Rightarrow> param list \<Rightarrow> pg \<Rightarrow> (exn + marriage list) \<times> pg" where
  "pg_fetch sql args d =
     (case round_trip d of
        (Some e, d1) \<Rightarrow> (Inl e, d1)
      | (None, d1) \<Rightarrow>
          (let d2 = d1\<lparr>received := received d1 @ [(sql, args)]\<rparr> in
           case args of
             [IntParam g] \<Rightarrow>
               (if sql = select_guild
                then (Inr (filter (\<lambda>r. fst (snd (snd r)) = g) (work d2)), d2)
                else (Inl (PostgresError ''syntax error''), d2))
           | _ \<Rightarrow> (Inl (PostgresError ''syntax error''), d2)))"

text \<open>A new transaction object has an identity of its own; a closed connection gives
  none.\<close>

definition pg_transaction :: "pg \<Rightarrow> (exn + nat) \<times> pg" where
  "pg_transaction d =
     (if \<not> alive d then (Inl (InterfaceError ''connection is closed''), d)
      else (Inr (next_tx d), d\<lparr>next_tx := Suc (next_tx d)\<rparr>))"

definition pg_start :: "nat \<Rightarrow> pg \<Rightarrow> exn option \<times> pg" where
  "pg_start t d =
     (case round_trip d of
        (Some e, d1) \<Rightarrow> (Some e, d1)
      | (None, d1) \<Rightarrow> (None, d1\<lparr>saved := (t, work d1) # saved d1\<rparr>))"

text \<open>Committing or rolling back a transaction ends the transactions started inside it
  as well.\<close>

definition pg_commit :: "nat \<Rightarrow> pg \<Rightarrow> exn option \<times> pg" where
  "pg_commit t d =
     (if \<not> alive d then (Some (InterfaceError ''connection is closed''), d)
      else case dropWhile (\<lambda>f. fst f \<noteq> t) (saved d) of
             [] \<Rightarrow> (Some (InterfaceError ''not started''), d)
           | f # rest \<Rightarrow>
               (case round_trip d of
                  (Some e, d1) \<Rightarrow> (Some e, d1)
                | (None, d1) \<Rightarrow>
                    (None, d1\<lparr>saved := rest,
                              committed := (if rest = [] then work d1 else committed d1)\<rparr>)))"

definition pg_rollback :: "nat \<Rightarrow> pg \<Rightarrow> exn option \<times> pg" where
  "pg_rollback t d =
     (if \<not> alive d then (Some (InterfaceError ''connection is closed''), d)
      else case dropWhile (\<lambda>f. fst f \<noteq> t) (saved d) of
             [] \<Rightarrow> (Some (InterfaceError ''not started''), d)
           | f # rest \<Rightarrow>
               (case round_trip d of
                  (Some e, d1) \<Rightarrow> (Some e, d1)
                | (None, d1) \<Rightarrow> (None, d1\<lparr>saved := rest, work := snd f\<rparr>)))"

definition pg_api ::
  "(marriage list \<Rightarrow> marriage \<Rightarrow> string option) \<Rightarrow> (pg, nat, marriage) connection_api" where
  "pg_api chk =
     \<lparr>conn_fetch = pg_fetch, conn_execute = pg_execute chk, conn_transaction = pg_transaction,
      tx_start = pg_start, tx_commit = pg_commit, tx_rollback = pg_rollback\<rparr>"

text \<open>Two constraints: none, and one marriage per user and guild.\<close>

definition no_constraint :: "marriage list \<Rightarrow> marriage \<Rightarrow> string option" where
  "no_constraint tbl row = None"

definition one_partner :: "marriage list \<Rightarrow> marriage \<Rightarrow> string option" where
  "one_partner tbl row =
     (if filter (\<lambda>r. fst r = fst row \<and> fst (snd (snd r)) = fst (snd (snd row))) tbl = []
      then None else Some ''unique_violation'')"

text \<open>
  The same connection in a task that is cancelled while it awaits a statement: the
  \<open>await\<close> raises \<open>CancelledError\<close> and the statement does nothing.
\<close>

definition cancelled_api :: "(pg, nat, marriage) connection_api" where
  "cancelled_api = (pg_api no_constraint)\<lparr>conn_execute := (\<lambda>sql args d. (Some CancelledError, d))\<rparr>"

definition empty_pg :: pg where
  "empty_pg = \<lparr>committed = [], work = [], saved = [], next_tx = 0, alive = True,
               lifetime = None, received = []\<rparr>"

text \<open>
  A pool for the reference engine: the list of the connections it holds. A released
  connection is reset, which ends whatever transaction it still has open, and joins the
  list. Releasing \<open>None\<close> raises.
\<close>

definition pg_reset :: "pg \<Rightarrow> pg" where
  "pg_reset d = d\<lparr>work := committed d, saved := []\<rparr>"

definition pg_release :: "pg option \<Rightarrow> pg list \<Rightarrow> exn option \<times> pg list" where
  "pg_release c p =
     (case c of
        None \<Rightarrow> (Some (AttributeError ''_holder''), p)
      | Some d \<Rightarrow> (None, p @ [pg_reset d]))"

text \<open>
  A configuration that marks the database disabled; a pool constructor that makes a
  pool of one connection; the class as the module defines it; and the class once the
  application has given it a logger.
\<close>

definition disabled_config :: config where
  "disabled_config = [''enabled'' \<mapsto> PyBool False, ''host'' \<mapsto> PyStr ''localhost'']"

definition one_connection_pool :: "config \<Rightarrow> exn + pg list" where
  "one_connection_pool cfg = Inr [empty_pg]"

definition fresh_class :: "pg list db_class" where
  "fresh_class = \<lparr>config = None, pool = None, logger = None\<rparr>"

definition logging_class :: "pg list db_class" where
  "logging_class = \<lparr>config = None, pool = None, logger = Some []\<rparr>"

text \<open>
  Two states of the reference engine to run \<open>marry\<close> on: a table in which user 2 is
  married in guild 9 already, and an empty database whose link breaks at the third round
  trip.
\<close>

definition taken_pg :: pg where
  "taken_pg = empty_pg\<lparr>committed := [(2, 3, 9, 0), (3, 2, 9, 0)],
                        work := [(2, 3, 9, 0), (3, 2, 9, 0)]\<rparr>"

definition short_lived_pg :: pg where
  "short_lived_pg = empty_pg\<lparr>lifetime := Some 2\<rparr>"

section \<open>cogs/redis_handler.py\<close>

subsection \<open>The receive loop\<close>

text \<open>
  A message of a channel is what \<open>get_json\<close> does on it: it returns the payload or it
  raises. A channel is the list of the messages delivered on it before it closes:
  \<open>wait_message\<close> returns \<open>True\<close> while a message is left and \<open>False\<close> then.

  The handler is a plain function or a coroutine function; it is called with the
  payload, changes the state \<open>'s\<close> of the bot, and returns or raises.
\<close>

type_synonym 'p message = "exn + 'p"

datatype ('p, 's) callable =
    Plain "'p \<Rightarrow> 's \<Rightarrow> exn option \<times> 's"
  | CoroutineFunction "'p \<Rightarrow> 's \<Rightarrow> exn option \<times> 's"

text \<open>Lines 51 to 54: a coroutine function is awaited, a plain function is called; the
  loop goes on when the call is over in both cases.\<close>

fun invoke :: "('p, 's) callable \<Rightarrow> 'p \<Rightarrow> 's \<Rightarrow> exn option \<times> 's" where
  "invoke (CoroutineFunction f) data s = f data s"
| "invoke (Plain f) data s = f data s"

text \<open>What the loop does, in order, is recorded as a list of events.\<close>

datatype 'p event =
    Decoded 'p
  | DecodeFailed exn
  | Called 'p
  | Returned 'p
  | Raised 'p exn

text \<open>
  The \<open>while\<close> of lines 49 to 54. Nothing in the loop catches an exception: one raised
  by \<open>get_json\<close> or by the handler leaves the loop and the coroutine.
\<close>

fun message_loop ::
  "('p, 's) callable \<Rightarrow> 'p message list \<Rightarrow> 's \<Rightarrow> 'p event list
     \<Rightarrow> exn option \<times> 's \<times> 'p event list" where
  "message_loop function [] s tr = (None, s, tr)"
| "message_loop function (m # ms) s tr =
     (case m of
        Inl e \<Rightarrow> (Some e, s, tr @ [DecodeFailed e])
      | Inr data \<Rightarrow>
          (case invoke function data s of
             (Some e, s') \<Rightarrow> (Some e, s', tr @ [Decoded data, Called data, Raised data e])
           | (None, s') \<Rightarrow>
               message_loop function ms s' (tr @ [Decoded data, Called data, Returned data])))"





subsection \<open>The cog\<close>

text \<open>
  A handler task is running, cancelled or finished; \<open>cancel\<close> acts on a running task
  only and never raises.
\<close>

datatype task = Running | Cancelled | Finished

fun cancel :: "task \<Rightarrow> task" where
  "cancel Running = Cancelled"
| "cancel t = t"

text \<open>
  The cog holds \<open>_channels\<close>, \<open>handlers\<close> and the lines written to \<open>log_handler\<close>.
  \<open>requests\<close> lists the channels an unsubscribe request was sent for.
\<close>

record cog =
  channels :: "string list"
  handlers :: "task list"
  log_handler :: "string list"
  requests :: "string list"

text \<open>
  \<open>channel_handler\<close>, lines 36 to 54. \<open>subscribe\<close> is the bus client's: it returns the
  list of the channels subscribed to, or raises.
\<close>

definition channel_handler ::
  "(string \<Rightarrow> exn + 'p message list list) \<Rightarrow> string \<Rightarrow> ('p, 's) callable \<Rightarrow> cog \<Rightarrow> 's
     \<Rightarrow> exn option \<times> cog \<times> 's \<times> 'p event list" where
  "channel_handler subscribe channel_name function self s =
     (let self1 = self\<lparr>channels := channels self @ [channel_name],
                       log_handler := log_handler self @
                         [''Subscribing to Redis channel '' @ channel_name]\<rparr>
      in case subscribe channel_name of
           Inl e \<Rightarrow> (Some e, self1, s, [])
         | Inr channel_list \<Rightarrow>
             (case channel_list of
                [] \<Rightarrow> (Some IndexError, self1, s, [])
              | channel # others \<Rightarrow>
                  (let self2 = self1\<lparr>log_handler := log_handler self1 @
                         [''Looping to wait for messages to channel '' @ channel_name]\<rparr>
                   in case message_loop function channel s [] of
                        (r, s', tr) \<Rightarrow> (r, self2, s', tr))))"

text \<open>
  The second loop of \<open>cog_unload\<close>, lines 31 to 34, over the copy of \<open>_channels\<close>.
  \<open>unsubscribe\<close> is the outcome of running the bus client's request to its end;
  \<open>list.remove\<close> takes the first occurrence out and raises \<open>ValueError\<close> when there is
  none.
\<close>

fun unsubscribe_all :: "(string \<Rightarrow> exn option) \<Rightarrow> string list \<Rightarrow> cog \<Rightarrow> exn option \<times> cog" where
  "unsubscribe_all unsubscribe [] self = (None, self)"
| "unsubscribe_all unsubscribe (channel # rest) self =
     (let self1 = self\<lparr>requests := requests self @ [channel]\<rparr> in
      case unsubscribe channel of
        Some e \<Rightarrow> (Some e, self1)
      | None \<Rightarrow>
          (if channel \<in> set (channels self1) then
             unsubscribe_all unsubscribe rest
               (self1\<lparr>channels := remove1 channel (channels self1),
                      log_handler := log_handler self1 @
                        [''Unsubscribing from Redis channel '' @ channel]\<rparr>)
           else (Some ValueError, self1)))"

text \<open>\<open>cog_unload\<close>, lines 26 to 34.\<close>

definition cog_unload :: "(string \<Rightarrow> exn option) \<Rightarrow> cog \<Rightarrow> exn option \<times> cog" where
  "cog_unload unsubscribe self =
     (let self1 = self\<lparr>handlers := map cancel (handlers self)\<rparr>
      in unsubscribe_all unsubscribe (channels self1) self1)"

text \<open>
  A handler and a cog to run the definitions on: the handler stores the payload in a
  cache and raises on the payload 0; the cog has three subscriptions running.
\<close>

definition store :: "nat \<Rightarrow> nat list \<Rightarrow> exn option \<times> nat list" where
  "store data cache =
     (if data = 0 then (Some (HandlerError 0), cache) else (None, cache @ [data]))"

definition three_channels :: cog where
  "three_channels =
     \<lparr>channels = [''DBLVote'', ''ProposalCacheAdd'', ''ProposalCacheRemove''],
      handlers = [Running, Running, Running], log_handler = [], requests = []\<rparr>"

text \<open>A bus on which every subscription gives one channel, with the messages given.\<close>

definition single_channel :: "'p message list \<Rightarrow> string \<Rightarrow> exn + 'p message list list" where
  "single_channel msgs channel_name = Inr [msgs]"

definition no_subscription :: cog where
  "no_subscription = \<lparr>channels = [], handlers = [Running], log_handler = [], requests = []\<rparr>"

section \<open>The statements of \<open>marry\<close> and of the reference engine\<close>

lemma not_read_insert_1: "\<not> is_read casefold_ascii insert_1"
  unfolding insert_1_def by code_simp

lemma not_read_insert_2: "\<not> is_read casefold_ascii insert_2"
  unfolding insert_2_def by code_simp

lemma is_read_select_guild: "is_read casefold_ascii select_guild"
  unfolding select_guild_def by code_simp

lemma insert_1_neq_insert_2: "insert_1 \<noteq> insert_2"
  by (simp add: insert_1_def insert_2_def)

section \<open>Properties of \<open>__call__\<close>\<close>

text \<open>
  C4. For every driver and every folding function: with the logger set, a statement
  classified as a read whose fetch returns no row makes \<open>__call__\<close> return the empty
  list, and a statement not classified as a read, whose execution succeeds, makes it
  return \<open>None\<close>; and whatever the logger and the lease, a call that returns on a read
  never returns \<open>None\<close>, and on any other statement returns nothing else.
\<close>

theorem call_read_empty_mutation_none:
  "(lg = Some records \<longrightarrow> conn self = Some c \<longrightarrow> is_read cf sql \<longrightarrow>
      conn_fetch api sql args c = (Inr [], c') \<longrightarrow>
      fst (call api cf sql args self lg) = Inr (Some [])) \<and>
   (lg = Some records \<longrightarrow> conn self = Some c \<longrightarrow> \<not> is_read cf sql \<longrightarrow>
      conn_execute api sql args c = (None, c') \<longrightarrow>
      fst (call api cf sql args self lg) = Inr None) \<and>
   (fst (call api cf sql args self lg) = Inr v \<longrightarrow>
      (is_read cf sql \<longrightarrow> v \<noteq> None) \<and> (\<not> is_read cf sql \<longrightarrow> v = None))"
  by (auto simp: call_def logger_debug_def
      split: option.splits sum.splits prod.splits if_splits)

theorem call_read_empty_mutation_none_witness:
  "is_read casefold_ascii select_guild \<and>
   conn_fetch (pg_api no_constraint) select_guild [IntParam 9] empty_pg
     = (Inr [], empty_pg\<lparr>received := [(select_guild, [IntParam 9])]\<rparr>) \<and>
   fst (call (pg_api no_constraint) casefold_ascii select_guild [IntParam 9]
          \<lparr>conn = Some empty_pg, transaction = (None :: nat option)\<rparr> (Some []))
     = Inr (Some []) \<and>
   \<not> is_read casefold_ascii insert_1 \<and>
   conn_execute (pg_api no_constraint) insert_1
       [IntParam 1, IntParam 2, IntParam 9, TimeParam 0] empty_pg
     = (None, empty_pg\<lparr>committed := [(1, 2, 9, 0)], work := [(1, 2, 9, 0)],
          received := [(insert_1, [IntParam 1, IntParam 2, IntParam 9, TimeParam 0])]\<rparr>) \<and>
   fst (call (pg_api no_constraint) casefold_ascii insert_1
          [IntParam 1, IntParam 2, IntParam 9, TimeParam 0]
          \<lparr>conn = Some empty_pg, transaction = (None :: nat option)\<rparr> (Some []))
     = Inr None"
proof -
  let ?self = "\<lparr>conn = Some empty_pg, transaction = (None :: nat option)\<rparr>"
  let ?args = "[IntParam 1, IntParam 2, IntParam 9, TimeParam 0]"
  have f: "conn_fetch (pg_api no_constraint) select_guild [IntParam 9] empty_pg
     = (Inr [], empty_pg\<lparr>received := [(select_guild, [IntParam 9])]\<rparr>)"
    by (simp add: pg_api_def pg_fetch_def round_trip_def empty_pg_def)
  have e: "conn_execute (pg_api no_constraint) insert_1 ?args empty_pg
     = (None, empty_pg\<lparr>committed := [(1, 2, 9, 0)], work := [(1, 2, 9, 0)],
          received := [(insert_1, ?args)]\<rparr>)"
    by (simp add: pg_api_def pg_execute_def round_trip_def empty_pg_def insert_row_def
        no_constraint_def)
  have c: "conn ?self = Some empty_pg" by simp
  from call_read_empty_mutation_none
         [where lg = "Some []" and records = "[]" and self = ?self and c = empty_pg
            and cf = casefold_ascii and sql = select_guild and api = "pg_api no_constraint"
            and args = "[IntParam 9]"
            and c' = "empty_pg\<lparr>received := [(select_guild, [IntParam 9])]\<rparr>"]
       is_read_select_guild c f
  have r1: "fst (call (pg_api no_constraint) casefold_ascii select_guild [IntParam 9]
                  ?self (Some [])) = Inr (Some [])"
    by blast
  from call_read_empty_mutation_none
         [where lg = "Some []" and records = "[]" and self = ?self and c = empty_pg
            and cf = casefold_ascii and sql = insert_1 and api = "pg_api no_constraint"
            and args = ?args
            and c' = "empty_pg\<lparr>committed := [(1, 2, 9, 0)], work := [(1, 2, 9, 0)],
                        received := [(insert_1, ?args)]\<rparr>"]
       not_read_insert_1 c e
  have r2: "fst (call (pg_api no_constraint) casefold_ascii insert_1 ?args ?self (Some []))
              = Inr None"
    by blast
  from is_read_select_guild not_read_insert_1 f e r1 r2 show ?thesis by blast
qed

section \<open>Properties of the transaction and pool methods\<close>

text \<open>
  C6, as the specification states it, fails: on a lease whose transaction is open,
  \<open>start_transaction\<close> returns normally, a second transaction is open on the connection
  and the slot holds the new transaction object.
\<close>

theorem start_transaction_open_counterexample:
  "start_transaction (pg_api no_constraint)
     \<lparr>conn = Some (empty_pg\<lparr>saved := [(0, [])], next_tx := 1\<rparr>), transaction = Some 0\<rparr>
   = (None,
      \<lparr>conn = Some (empty_pg\<lparr>saved := [(1, []), (0, [])], next_tx := 2\<rparr>),
       transaction = Some 1\<rparr>)"
  by (simp add: start_transaction_def pg_api_def pg_transaction_def pg_start_def
      round_trip_def empty_pg_def)

text \<open>
  C6, amended. \<open>start_transaction\<close> does not look at the slot, so a transaction already
  open is not detected. Whatever the slot holds: when the lease holds a connection and
  the connection returns a new transaction object, the slot is overwritten with that
  object, the object is started, and the outcome of the call is the outcome of that
  start; when the lease holds no connection, or the connection raises instead of
  returning an object, the call raises that error and the slot keeps what it held.
\<close>

theorem start_transaction_ignores_marker:
  "(conn self = None \<longrightarrow>
      start_transaction api (self\<lparr>transaction := m\<rparr>)
        = (Some (AttributeError ''transaction''), self\<lparr>transaction := m\<rparr>)) \<and>
   (conn self = Some c \<longrightarrow> conn_transaction api c = (Inl e, c') \<longrightarrow>
      start_transaction api (self\<lparr>transaction := m\<rparr>)
        = (Some e, \<lparr>conn = Some c', transaction = m\<rparr>)) \<and>
   (conn self = Some c \<longrightarrow> conn_transaction api c = (Inr t, c') \<longrightarrow>
      tx_start api t c' = (r, c'') \<longrightarrow>
      start_transaction api (self\<lparr>transaction := m\<rparr>)
        = (r, \<lparr>conn = Some c'', transaction = Some t\<rparr>))"
  by (simp add: start_transaction_def)

theorem start_transaction_ignores_marker_witness:
  "start_transaction (pg_api no_constraint)
     (\<lparr>conn = None, transaction = None\<rparr>\<lparr>transaction := Some 0\<rparr>)
     = (Some (AttributeError ''transaction''), \<lparr>conn = None, transaction = Some 0\<rparr>) \<and>
   conn_transaction (pg_api no_constraint) (empty_pg\<lparr>alive := False\<rparr>)
     = (Inl (InterfaceError ''connection is closed''), empty_pg\<lparr>alive := False\<rparr>) \<and>
   start_transaction (pg_api no_constraint)
     (\<lparr>conn = Some (empty_pg\<lparr>alive := False\<rparr>), transaction = None\<rparr>\<lparr>transaction := Some 0\<rparr>)
     = (Some (InterfaceError ''connection is closed''),
        \<lparr>conn = Some (empty_pg\<lparr>alive := False\<rparr>), transaction = Some 0\<rparr>) \<and>
   conn_transaction (pg_api no_constraint) (empty_pg\<lparr>saved := [(0, [])], next_tx := 1\<rparr>)
     = (Inr 1, empty_pg\<lparr>saved := [(0, [])], next_tx := 2\<rparr>) \<and>
   tx_start (pg_api no_constraint) 1 (empty_pg\<lparr>saved := [(0, [])], next_tx := 2\<rparr>)
     = (None, empty_pg\<lparr>saved := [(1, []), (0, [])], next_tx := 2\<rparr>) \<and>
   start_transaction (pg_api no_constraint)
     (\<lparr>conn = Some (empty_pg\<lparr>saved := [(0, [])], next_tx := 1\<rparr>), transaction = None\<rparr>
        \<lparr>transaction := Some 0\<rparr>)
     = (None, \<lparr>conn = Some (empty_pg\<lparr>saved := [(1, []), (0, [])], next_tx := 2\<rparr>),
               transaction = Some 1\<rparr>)"
proof -
  let ?api = "pg_api no_constraint"
  let ?dead = "empty_pg\<lparr>alive := False\<rparr>"
  let ?d = "empty_pg\<lparr>saved := [(0, [])], next_tx := 1\<rparr>"
  let ?d' = "empty_pg\<lparr>saved := [(0, [])], next_tx := 2\<rparr>"
  let ?d'' = "empty_pg\<lparr>saved := [(1, []), (0, [])], next_tx := 2\<rparr>"
  have n: "conn \<lparr>conn = (None :: pg option), transaction = (None :: nat option)\<rparr> = None"
    by simp
  have a1: "conn \<lparr>conn = Some ?dead, transaction = (None :: nat option)\<rparr> = Some ?dead"
    by simp
  have b1: "conn_transaction ?api ?dead = (Inl (InterfaceError ''connection is closed''), ?dead)"
    by (simp add: pg_api_def pg_transaction_def empty_pg_def)
  have a2: "conn \<lparr>conn = Some ?d, transaction = (None :: nat option)\<rparr> = Some ?d"
    by simp
  have b2: "conn_transaction ?api ?d = (Inr 1, ?d')"
    by (simp add: pg_api_def pg_transaction_def empty_pg_def)
  have c2: "tx_start ?api 1 ?d' = (None, ?d'')"
    by (simp add: pg_api_def pg_start_def round_trip_def empty_pg_def)
  from start_transaction_ignores_marker
         [where self = "\<lparr>conn = (None :: pg option), transaction = (None :: nat option)\<rparr>"
            and api = ?api and m = "Some 0"] n
  have r0: "start_transaction ?api (\<lparr>conn = None, transaction = None\<rparr>\<lparr>transaction := Some 0\<rparr>)
              = (Some (AttributeError ''transaction''), \<lparr>conn = None, transaction = Some 0\<rparr>)"
    by simp
  from start_transaction_ignores_marker
         [where self = "\<lparr>conn = Some ?dead, transaction = (None :: nat option)\<rparr>"
            and c = ?dead and api = ?api and m = "Some 0"
            and e = "InterfaceError ''connection is closed''" and c' = ?dead] a1 b1
  have r1: "start_transaction ?api
              (\<lparr>conn = Some ?dead, transaction = None\<rparr>\<lparr>transaction := Some 0\<rparr>)
            = (Some (InterfaceError ''connection is closed''),
               \<lparr>conn = Some ?dead, transaction = Some 0\<rparr>)"
    by simp
  from start_transaction_ignores_marker
         [where self = "\<lparr>conn = Some ?d, transaction = (None :: nat option)\<rparr>"
            and c = ?d and api = ?api and m = "Some 0" and t = 1 and c' = ?d'
            and r = None and c'' = ?d''] a2 b2 c2
  have r2: "start_transaction ?api
              (\<lparr>conn = Some ?d, transaction = None\<rparr>\<lparr>transaction := Some 0\<rparr>)
            = (None, \<lparr>conn = Some ?d'', transaction = Some 1\<rparr>)"
    by simp
  from r0 b1 r1 b2 c2 r2 show ?thesis by blast
qed

text \<open>
  C7, as the specification states it, fails. With the class as the module defines it,
  the logger not set, a configuration whose \<open>enabled\<close> entry is \<open>False\<close> makes
  \<open>create_pool\<close> raise the \<open>AttributeError\<close> of the logging call of line 33; \<open>exit(1)\<close>
  is not reached.
\<close>

theorem create_pool_disabled_counterexample:
  "create_pool one_connection_pool disabled_config fresh_class
     = (Some (AttributeError ''critical''),
        \<lparr>config = Some disabled_config, pool = None, logger = None\<rparr>)"
  by (simp add: create_pool_def Let_def disabled_config_def fresh_class_def
      logger_critical_def)

text \<open>
  C7, amended. A configuration whose \<open>enabled\<close> entry is \<open>False\<close> makes \<open>create_pool\<close>
  raise, and no pool is created: the pool attribute keeps its value and the driver's
  pool constructor is not called, so the outcome is the same for every constructor.
  When the logger of the class has been set, what is raised is the fatal
  \<open>SystemExit(1)\<close> of \<open>exit(1)\<close>; while it is \<open>None\<close>, it is the \<open>AttributeError\<close> of the
  logging call.
\<close>

theorem create_pool_disabled:
  "cfg ''enabled'' = Some (PyBool False) \<Longrightarrow>
     fst (create_pool asyncpg_create_pool cfg cls) \<noteq> None \<and>
     (logger cls = Some records \<longrightarrow>
        fst (create_pool asyncpg_create_pool cfg cls) = Some (SystemExit 1)) \<and>
     (logger cls = None \<longrightarrow>
        fst (create_pool asyncpg_create_pool cfg cls) = Some (AttributeError ''critical'')) \<and>
     pool (snd (create_pool asyncpg_create_pool cfg cls)) = pool cls \<and>
     create_pool asyncpg_create_pool cfg cls = create_pool other_create_pool cfg cls"
  by (simp add: create_pool_def Let_def logger_critical_def split: option.splits)

theorem create_pool_disabled_witness:
  "disabled_config ''enabled'' = Some (PyBool False) \<and>
   logger logging_class = Some [] \<and>
   fst (create_pool one_connection_pool disabled_config logging_class) = Some (SystemExit 1) \<and>
   pool (snd (create_pool one_connection_pool disabled_config logging_class)) = None \<and>
   logger fresh_class = None \<and>
   fst (create_pool one_connection_pool disabled_config fresh_class)
     = Some (AttributeError ''critical'') \<and>
   pool (snd (create_pool one_connection_pool disabled_config fresh_class)) = None"
proof -
  have a: "disabled_config ''enabled'' = Some (PyBool False)"
    by (simp add: disabled_config_def)
  have l: "logger logging_class = Some []"
    by (simp add: logging_class_def)
  have n: "logger fresh_class = None"
    by (simp add: fresh_class_def)
  from create_pool_disabled
         [where cfg = disabled_config and asyncpg_create_pool = one_connection_pool
            and cls = logging_class and records = "[]"] a l
  have r1: "fst (create_pool one_connection_pool disabled_config logging_class)
              = Some (SystemExit 1) \<and>
            pool (snd (create_pool one_connection_pool disabled_config logging_class)) = None"
    by (simp add: logging_class_def)
  from create_pool_disabled
         [where cfg = disabled_config and asyncpg_create_pool = one_connection_pool
            and cls = fresh_class] a n
  have r2: "fst (create_pool one_connection_pool disabled_config fresh_class)
              = Some (AttributeError ''critical'') \<and>
            pool (snd (create_pool one_connection_pool disabled_config fresh_class)) = None"
    by (simp add: fresh_class_def)
  from a l n r1 r2 show ?thesis by blast
qed

text \<open>
  C8, as the specification states it, fails: a lease whose transaction is open is
  released without an error, the connection joins the pool and the slot of the
  transaction is left as it was.
\<close>

theorem disconnect_open_counterexample:
  "disconnect pg_release \<lparr>config = None, pool = Some [], logger = None\<rparr>
     \<lparr>conn = Some (empty_pg\<lparr>saved := [(0, [])], next_tx := 1\<rparr>), transaction = Some (0::nat)\<rparr>
   = (None,
      \<lparr>config = None, pool = Some [empty_pg\<lparr>next_tx := 1\<rparr>], logger = None\<rparr>,
      \<lparr>conn = None, transaction = Some 0\<rparr>)"
  by (simp add: disconnect_def pg_release_def pg_reset_def empty_pg_def)

text \<open>
  C8, amended. \<open>disconnect\<close> does not look at the slot of the transaction: whatever the
  slot holds, the connection is handed to the pool's \<open>release\<close>, the outcome is the
  outcome of that call, and when it returns the \<open>conn\<close> slot is cleared and the slot of
  the transaction keeps its value.
\<close>

theorem disconnect_ignores_marker:
  "pool cls = Some p \<Longrightarrow> pool_release (conn self) p = (r, p')
     \<Longrightarrow> disconnect pool_release cls (self\<lparr>transaction := m\<rparr>)
         = (r, cls\<lparr>pool := Some p'\<rparr>,
            if r = None then \<lparr>conn = None, transaction = m\<rparr> else self\<lparr>transaction := m\<rparr>)"
  by (cases r) (simp_all add: disconnect_def)

theorem disconnect_ignores_marker_witness:
  "pool \<lparr>config = None, pool = Some [], logger = None\<rparr> = Some ([] :: pg list) \<and>
   pg_release (conn \<lparr>conn = Some empty_pg, transaction = (None :: nat option)\<rparr>) []
     = (None, [empty_pg]) \<and>
   disconnect pg_release \<lparr>config = None, pool = Some [], logger = None\<rparr>
     (\<lparr>conn = Some empty_pg, transaction = None\<rparr>\<lparr>transaction := Some (0::nat)\<rparr>)
   = (None, \<lparr>config = None, pool = Some [empty_pg], logger = None\<rparr>,
      \<lparr>conn = None, transaction = Some 0\<rparr>)"
proof -
  let ?cls = "\<lparr>config = None, pool = Some ([] :: pg list), logger = None\<rparr>"
  let ?self = "\<lparr>conn = Some empty_pg, transaction = (None :: nat option)\<rparr>"
  have a: "pool ?cls = Some []" by simp
  have b: "pg_release (conn ?self) [] = (None, [empty_pg])"
    by (simp add: pg_release_def pg_reset_def empty_pg_def)
  from disconnect_ignores_marker
         [where cls = ?cls and p = "[]" and pool_release = pg_release and self = ?self
            and r = None and p' = "[empty_pg]" and m = "Some 0"] a b
  show ?thesis by simp
qed

section \<open>Properties of the receive loop\<close>

lemma message_loop_append:
  "message_loop function (xs @ ys) s tr =
     (case message_loop function xs s tr of
        (None, s', tr') \<Rightarrow> message_loop function ys s' tr'
      | (Some e, s', tr') \<Rightarrow> (Some e, s', tr'))"
  by (induction xs arbitrary: s tr) (auto split: sum.splits option.splits prod.splits)


text \<open>The first failure ends the loop, whatever is delivered after it.\<close>

lemma message_loop_decode_failure:
  "message_loop function pre s tr0 = (None, s', tr) \<Longrightarrow>
     message_loop function (pre @ Inl e # post) s tr0 = (Some e, s', tr @ [DecodeFailed e])"
  by (simp add: message_loop_append)

lemma message_loop_handler_failure:
  "message_loop function pre s tr0 = (None, s', tr) \<Longrightarrow>
   invoke function data s' = (Some e, s'') \<Longrightarrow>
     message_loop function (pre @ Inr data # post) s tr0
       = (Some e, s'', tr @ [Decoded data, Called data, Raised data e])"
  by (simp add: message_loop_append)

text \<open>
  C2, as the specification states it, fails. A message that does not decode ends the
  loop with the decoding error, and a handler that raises ends it with the handler's
  error; in both runs the message delivered next, with payload 7, is not processed.
\<close>

theorem message_loop_error_counterexample:
  "message_loop (Plain store) [Inl JSONDecodeError, Inr 7] [] []
     = (Some JSONDecodeError, [], [DecodeFailed JSONDecodeError]) \<and>
   message_loop (Plain store) [Inr 0, Inr 7] [] []
     = (Some (HandlerError 0), [], [Decoded 0, Called 0, Raised 0 (HandlerError 0)])"
  by (simp add: store_def)

text \<open>
  C2, amended. The first message whose decoding fails, or on which the handler raises,
  is neither caught nor logged: it ends the receive loop, and \<open>channel_handler\<close> with
  it, with that error. The messages delivered before it have been processed; no message
  delivered after it on the channel is; the log holds the two lines written before the
  loop and nothing else.
\<close>

theorem channel_handler_ends_at_first_failure:
  assumes "subscribe channel_name = Inr ((pre @ m # post) # others)"
    and "message_loop function pre s [] = (None, s', tr)"
  shows "(m = Inl e \<longrightarrow>
            channel_handler subscribe channel_name function self s
              = (Some e,
                 self\<lparr>channels := channels self @ [channel_name],
                      log_handler := log_handler self @
                        [''Subscribing to Redis channel '' @ channel_name,
                         ''Looping to wait for messages to channel '' @ channel_name]\<rparr>,
                 s', tr @ [DecodeFailed e])) \<and>
         (m = Inr data \<longrightarrow> invoke function data s' = (Some e, s'') \<longrightarrow>
            channel_handler subscribe channel_name function self s
              = (Some e,
                 self\<lparr>channels := channels self @ [channel_name],
                      log_handler := log_handler self @
                        [''Subscribing to Redis channel '' @ channel_name,
                         ''Looping to wait for messages to channel '' @ channel_name]\<rparr>,
                 s'', tr @ [Decoded data, Called data, Raised data e]))"
proof (intro conjI impI)
  assume "m = Inl e"
  with assms message_loop_decode_failure [OF assms(2), of e post]
  show "channel_handler subscribe channel_name function self s
          = (Some e,
             self\<lparr>channels := channels self @ [channel_name],
                  log_handler := log_handler self @
                    [''Subscribing to Redis channel '' @ channel_name,
                     ''Looping to wait for messages to channel '' @ channel_name]\<rparr>,
             s', tr @ [DecodeFailed e])"
    by (simp add: channel_handler_def Let_def)
next
  assume "m = Inr data" and "invoke function data s' = (Some e, s'')"
  with assms message_loop_handler_failure [OF assms(2), of data e s'' post]
  show "channel_handler subscribe channel_name function self s
          = (Some e,
             self\<lparr>channels := channels self @ [channel_name],
                  log_handler := log_handler self @
                    [''Subscribing to Redis channel '' @ channel_name,
                     ''Looping to wait for messages to channel '' @ channel_name]\<rparr>,
             s'', tr @ [Decoded data, Called data, Raised data e])"
    by (simp add: channel_handler_def Let_def)
qed

theorem channel_handler_ends_at_first_failure_witness:
  "message_loop (Plain store) [Inr 5] [] [] = (None, [5], [Decoded 5, Called 5, Returned 5]) \<and>
   channel_handler (single_channel [Inr 5, Inl JSONDecodeError, Inr 7]) ''DBLVote''
       (Plain store) no_subscription []
     = (Some JSONDecodeError,
        \<lparr>channels = [''DBLVote''], handlers = [Running],
         log_handler = [''Subscribing to Redis channel DBLVote'',
                        ''Looping to wait for messages to channel DBLVote''],
         requests = []\<rparr>,
        [5], [Decoded 5, Called 5, Returned 5, DecodeFailed JSONDecodeError]) \<and>
   invoke (Plain store) 0 [5] = (Some (HandlerError 0), [5]) \<and>
   channel_handler (single_channel [Inr 5, Inr 0, Inr 7]) ''DBLVote''
       (Plain store) no_subscription []
     = (Some (HandlerError 0),
        \<lparr>channels = [''DBLVote''], handlers = [Running],
         log_handler = [''Subscribing to Redis channel DBLVote'',
                        ''Looping to wait for messages to channel DBLVote''],
         requests = []\<rparr>,
        [5], [Decoded 5, Called 5, Returned 5, Decoded 0, Called 0, Raised 0 (HandlerError 0)])"
proof -
  have a: "message_loop (Plain store) [Inr 5] [] []
             = (None, [5], [Decoded 5, Called 5, Returned 5])"
    by (simp add: store_def)
  have b1: "single_channel [Inr 5, Inl JSONDecodeError, Inr 7] ''DBLVote''
              = Inr (([Inr 5] @ Inl JSONDecodeError # [Inr (7::nat)]) # [])"
    by (simp add: single_channel_def)
  have b2: "single_channel [Inr 5, Inr 0, Inr 7] ''DBLVote''
              = Inr (([Inr 5] @ Inr 0 # [Inr (7::nat)]) # [])"
    by (simp add: single_channel_def)
  have i: "invoke (Plain store) 0 [5] = (Some (HandlerError 0), [5])"
    by (simp add: store_def)
  from channel_handler_ends_at_first_failure
         [of "single_channel [Inr 5, Inl JSONDecodeError, Inr 7]" "''DBLVote''" "[Inr 5]"
             "Inl JSONDecodeError" "[Inr 7]" "[]" "Plain store" "[]" "[5]"
             "[Decoded 5, Called 5, Returned 5]" JSONDecodeError no_subscription] b1 a
  have r1: "channel_handler (single_channel [Inr 5, Inl JSONDecodeError, Inr 7]) ''DBLVote''
              (Plain store) no_subscription []
            = (Some JSONDecodeError,
               \<lparr>channels = [''DBLVote''], handlers = [Running],
                log_handler = [''Subscribing to Redis channel DBLVote'',
                               ''Looping to wait for messages to channel DBLVote''],
                requests = []\<rparr>,
               [5], [Decoded 5, Called 5, Returned 5, DecodeFailed JSONDecodeError])"
    by (simp add: no_subscription_def)
  from channel_handler_ends_at_first_failure
         [of "single_channel [Inr 5, Inr 0, Inr 7]" "''DBLVote''" "[Inr 5]"
             "Inr 0" "[Inr 7]" "[]" "Plain store" "[]" "[5]"
             "[Decoded 5, Called 5, Returned 5]" "HandlerError 0" no_subscription 0 "[5]"]
       b2 a i
  have r2: "channel_handler (single_channel [Inr 5, Inr 0, Inr 7]) ''DBLVote''
              (Plain store) no_subscription []
            = (Some (HandlerError 0),
               \<lparr>channels = [''DBLVote''], handlers = [Running],
                log_handler = [''Subscribing to Redis channel DBLVote'',
                               ''Looping to wait for messages to channel DBLVote''],
                requests = []\<rparr>,
               [5], [Decoded 5, Called 5, Returned 5, Decoded 0, Called 0,
                     Raised 0 (HandlerError 0)])"
    by (simp add: no_subscription_def)
  from a r1 i r2 show ?thesis by blast
qed



section \<open>Properties of \<open>cog_unload\<close>\<close>

lemma cancel_cancel: "cancel (cancel t) = cancel t"
  by (cases t) simp_all

lemma unsubscribe_all_returns:
  "unsubscribe_all unsubscribe cs self = (None, self') \<Longrightarrow>
     mset (channels self) = mset cs + mset (channels self') \<and> handlers self' = handlers self"
proof (induction cs arbitrary: self)
  case Nil
  then show ?case by simp
next
  case (Cons c cs)
  let ?self1 = "self\<lparr>requests := requests self @ [c]\<rparr>"
  let ?self2 = "?self1\<lparr>channels := remove1 c (channels ?self1),
                  log_handler := log_handler ?self1 @ [''Unsubscribing from Redis channel '' @ c]\<rparr>"
  from Cons.prems have ok: "unsubscribe c = None" "c \<in> set (channels self)"
    and rest: "unsubscribe_all unsubscribe cs ?self2 = (None, self')"
    by (auto simp: Let_def split: option.splits if_splits)
  from Cons.IH [OF rest] have
    "mset (remove1 c (channels self)) = mset cs + mset (channels self')"
    "handlers self' = handlers self"
    by simp_all
  with ok show ?case
    by (simp add: insert_DiffM2 union_single_eq_member) (metis add_mset_remove_trivial_If in_multiset_in_set insert_DiffM)
qed

text \<open>
  C9. When one call of \<open>cog_unload\<close> has returned, a second call returns as well and
  leaves the cog as the first left it: no unsubscribe request is sent, no line is
  logged and no task changes.
\<close>

theorem cog_unload_idempotent:
  "cog_unload unsubscribe self = (None, self') \<Longrightarrow> cog_unload unsubscribe self' = (None, self')"
proof -
  assume a: "cog_unload unsubscribe self = (None, self')"
  let ?self1 = "self\<lparr>handlers := map cancel (handlers self)\<rparr>"
  from a have "unsubscribe_all unsubscribe (channels ?self1) ?self1 = (None, self')"
    by (simp add: cog_unload_def Let_def)
  from unsubscribe_all_returns [OF this]
  have c: "channels self' = []" and h: "handlers self' = map cancel (handlers self)"
    by simp_all
  have "map cancel (handlers self') = handlers self'"
    by (simp add: h cancel_cancel)
  then have "self'\<lparr>handlers := map cancel (handlers self')\<rparr> = self'"
    by simp
  then show ?thesis
    by (simp add: cog_unload_def Let_def c)
qed

theorem cog_unload_idempotent_witness:
  "cog_unload (\<lambda>channel. None) three_channels
     = (None,
        \<lparr>channels = [], handlers = [Cancelled, Cancelled, Cancelled],
         log_handler = [''Unsubscribing from Redis channel DBLVote'',
                        ''Unsubscribing from Redis channel ProposalCacheAdd'',
                        ''Unsubscribing from Redis channel ProposalCacheRemove''],
         requests = [''DBLVote'', ''ProposalCacheAdd'', ''ProposalCacheRemove'']\<rparr>) \<and>
   cog_unload (\<lambda>channel. None)
        \<lparr>channels = [], handlers = [Cancelled, Cancelled, Cancelled],
         log_handler = [''Unsubscribing from Redis channel DBLVote'',
                        ''Unsubscribing from Redis channel ProposalCacheAdd'',
                        ''Unsubscribing from Redis channel ProposalCacheRemove''],
         requests = [''DBLVote'', ''ProposalCacheAdd'', ''ProposalCacheRemove'']\<rparr>
     = (None,
        \<lparr>channels = [], handlers = [Cancelled, Cancelled, Cancelled],
         log_handler = [''Unsubscribing from Redis channel DBLVote'',
                        ''Unsubscribing from Redis channel ProposalCacheAdd'',
                        ''Unsubscribing from Redis channel ProposalCacheRemove''],
         requests = [''DBLVote'', ''ProposalCacheAdd'', ''ProposalCacheRemove'']\<rparr>)"
proof -
  have a: "cog_unload (\<lambda>channel. None) three_channels
     = (None,
        \<lparr>channels = [], handlers = [Cancelled, Cancelled, Cancelled],
         log_handler = [''Unsubscribing from Redis channel DBLVote'',
                        ''Unsubscribing from Redis channel ProposalCacheAdd'',
                        ''Unsubscribing from Redis channel ProposalCacheRemove''],
         requests = [''DBLVote'', ''ProposalCacheAdd'', ''ProposalCacheRemove'']\<rparr>)"
    by (simp add: cog_unload_def three_channels_def)
  from cog_unload_idempotent [OF a] a show ?thesis by simp
qed

section \<open>Properties of \<open>marry\<close>\<close>

lemmas marry_pg_defs =
  marry_def Let_def start_transaction_def marry_inserts_def marry_except_def
  commit_transaction_def call_def logger_debug_def pg_api_def
  pg_transaction_def pg_start_def pg_execute_def pg_fetch_def pg_commit_def pg_rollback_def
  round_trip_def insert_row_def insert_1_neq_insert_2 insert_1_neq_insert_2 [symmetric]
  utcnow_def

text \<open>What a call of \<open>marry\<close> that returns has done to the reference engine.\<close>

lemma marry_pg_success:
  assumes "conn self = Some d"
    and "marry (pg_api chk) cf instigator target guild_id self lg clk = (None, self', lg', clk')"
  shows "clk' = Suc clk \<and>
     (\<exists>d'. conn self' = Some d' \<and>
        work d' = work d @ [(getattr_id instigator, getattr_id target, guild_id, clk),
                            (getattr_id target, getattr_id instigator, guild_id, clk)] \<and>
        committed d' = (if saved d = [] then work d' else committed d) \<and>
        saved d' = saved d \<and>
        received d' = received d @
          [(insert_1, [IntParam (getattr_id instigator), IntParam (getattr_id target),
                       IntParam guild_id, TimeParam clk]),
           (insert_2, [IntParam (getattr_id instigator), IntParam (getattr_id target),
                       IntParam guild_id, TimeParam clk])])"
  using assms
  by (auto simp: marry_pg_defs
      split: option.splits nat.splits if_splits prod.splits sum.splits)





text \<open>
  C10. When \<open>marry\<close> returns, the clock has been read once, the two statements the
  engine was sent carry the same arguments, with the value of that reading as the
  fourth, and the two rows added to the table carry that value as their timestamp.
\<close>

theorem marry_single_timestamp:
  assumes "conn self = Some d"
    and "marry (pg_api chk) cf instigator target guild_id self lg clk = (None, self', lg', clk')"
  shows "clk' = Suc clk \<and>
     (\<exists>d'. conn self' = Some d' \<and>
        work d' = work d @ [(getattr_id instigator, getattr_id target, guild_id, clk),
                            (getattr_id target, getattr_id instigator, guild_id, clk)] \<and>
        received d' = received d @
          [(insert_1, [IntParam (getattr_id instigator), IntParam (getattr_id target),
                       IntParam guild_id, TimeParam clk]),
           (insert_2, [IntParam (getattr_id instigator), IntParam (getattr_id target),
                       IntParam guild_id, TimeParam clk])])"
  using marry_pg_success [OF assms] by blast

theorem marry_single_timestamp_witness:
  "marry (pg_api no_constraint) casefold_ascii (User 7 ''ann'') (UserId 8) 3
     \<lparr>conn = Some empty_pg, transaction = None\<rparr> (Some []) 41
   = (None,
      \<lparr>conn = Some (empty_pg\<lparr>committed := [(7, 8, 3, 41), (8, 7, 3, 41)],
                work := [(7, 8, 3, 41), (8, 7, 3, 41)], next_tx := 1,
                received := [(insert_1, [IntParam 7, IntParam 8, IntParam 3, TimeParam 41]),
                             (insert_2, [IntParam 7, IntParam 8, IntParam 3, TimeParam 41])]\<rparr>),
        transaction = None\<rparr>,
      Some [Debug insert_1 [IntParam 7, IntParam 8, IntParam 3, TimeParam 41],
            Debug insert_2 [IntParam 7, IntParam 8, IntParam 3, TimeParam 41]], 42) \<and>
   (42 :: nat) = Suc 41"
proof -
  have ok: "marry (pg_api no_constraint) casefold_ascii (User 7 ''ann'') (UserId 8) 3
     \<lparr>conn = Some empty_pg, transaction = None\<rparr> (Some []) 41
   = (None,
      \<lparr>conn = Some (empty_pg\<lparr>committed := [(7, 8, 3, 41), (8, 7, 3, 41)],
                work := [(7, 8, 3, 41), (8, 7, 3, 41)], next_tx := 1,
                received := [(insert_1, [IntParam 7, IntParam 8, IntParam 3, TimeParam 41]),
                             (insert_2, [IntParam 7, IntParam 8, IntParam 3, TimeParam 41])]\<rparr>),
        transaction = None\<rparr>,
      Some [Debug insert_1 [IntParam 7, IntParam 8, IntParam 3, TimeParam 41],
            Debug insert_2 [IntParam 7, IntParam 8, IntParam 3, TimeParam 41]], 42)"
    by (simp add: marry_pg_defs not_read_insert_1 not_read_insert_2 no_constraint_def
        empty_pg_def)
  have c: "conn \<lparr>conn = Some empty_pg, transaction = (None :: nat option)\<rparr> = Some empty_pg"
    by simp
  from marry_single_timestamp [OF c ok] ok show ?thesis by simp
qed

text \<open>
  C5, as the specification states it, fails, in two ways. On a connection whose link
  breaks during the second statement, that statement raises
  \<open>ConnectionDoesNotExistError\<close>; the rollback in the handler then raises
  \<open>InterfaceError\<close>, and that error, not the statement's, is the one \<open>marry\<close> raises.
  In a task cancelled while it awaits the first statement, the statement raises
  \<open>CancelledError\<close>, which \<open>except Exception\<close> does not catch: \<open>marry\<close> raises it with
  no rollback, and the transaction it started is still open.
\<close>

theorem marry_reraise_counterexample:
  "fst (start_transaction (pg_api no_constraint)
          \<lparr>conn = Some short_lived_pg, transaction = None\<rparr>) = None \<and>
   fst (marry_inserts (pg_api no_constraint) casefold_ascii
          [IntParam 1, IntParam 2, IntParam 9, TimeParam 0]
          (snd (start_transaction (pg_api no_constraint)
                  \<lparr>conn = Some short_lived_pg, transaction = None\<rparr>)) (Some []))
     = Some ConnectionDoesNotExistError \<and>
   fst (marry (pg_api no_constraint) casefold_ascii (UserId 1) (UserId 2) 9
          \<lparr>conn = Some short_lived_pg, transaction = None\<rparr> (Some []) 0)
     = Some (InterfaceError ''connection is closed'') \<and>
   marry cancelled_api casefold_ascii (UserId 1) (UserId 2) 9
     \<lparr>conn = Some empty_pg, transaction = None\<rparr> (Some []) 0
   = (Some CancelledError,
      \<lparr>conn = Some (empty_pg\<lparr>saved := [(0, [])], next_tx := 1\<rparr>), transaction = Some 0\<rparr>,
      Some [Debug insert_1 [IntParam 1, IntParam 2, IntParam 9, TimeParam 0]], 1)"
  by (simp add: marry_pg_defs not_read_insert_1 not_read_insert_2 no_constraint_def
      short_lived_pg_def empty_pg_def cancelled_api_def)

text \<open>Once the transaction is started, the lease holds a connection and a transaction
  object, and a statement leaves both in their slots, so the handler has something to
  roll back.\<close>

lemma start_transaction_slots:
  "start_transaction api self = (None, s) \<Longrightarrow> transaction s \<noteq> None \<and> conn s \<noteq> None"
  by (auto simp: start_transaction_def split: option.splits prod.splits sum.splits)

lemma call_slots:
  "call api cf sql args s lg = (res, s', lg')
     \<Longrightarrow> transaction s' = transaction s \<and> (conn s \<noteq> None \<longrightarrow> conn s' \<noteq> None)"
  by (auto simp: call_def split: option.splits prod.splits sum.splits if_splits)

text \<open>
  C5, amended. For every driver: when a statement of \<open>marry\<close> raises an error \<open>e\<close>, the
  lease holds the transaction \<open>marry\<close> started and its connection. If \<open>e\<close> is an
  \<open>Exception\<close>, the rollback of that transaction is called; when that call returns,
  \<open>marry\<close> raises \<open>e\<close> itself, and when it raises, \<open>marry\<close> raises the error of the
  rollback. If \<open>e\<close> is no \<open>Exception\<close>, \<open>marry\<close> raises \<open>e\<close> and calls no rollback.
\<close>

theorem marry_reraises_when_rollback_returns:
  assumes "start_transaction api self = (None, s)"
    and "call api cf insert_1
           [IntParam (getattr_id instigator), IntParam (getattr_id target),
            IntParam guild_id, TimeParam clk] s lg = (Inl e, s', lg') \<or>
         (\<exists>x s1 lg1.
            call api cf insert_1
              [IntParam (getattr_id instigator), IntParam (getattr_id target),
               IntParam guild_id, TimeParam clk] s lg = (Inr x, s1, lg1) \<and>
            call api cf insert_2
              [IntParam (getattr_id instigator), IntParam (getattr_id target),
               IntParam guild_id, TimeParam clk] s1 lg1 = (Inl e, s', lg'))"
  shows "\<exists>t c. transaction s' = Some t \<and> conn s' = Some c \<and>
     marry api cf instigator target guild_id self lg clk =
       (if is_exception e
        then (case tx_rollback api t c of
                (None, c') \<Rightarrow> (Some e, s'\<lparr>conn := Some c'\<rparr>, lg', Suc clk)
              | (Some r, c') \<Rightarrow> (Some r, s'\<lparr>conn := Some c'\<rparr>, lg', Suc clk))
        else (Some e, s', lg', Suc clk))"
proof -
  let ?args = "[IntParam (getattr_id instigator), IntParam (getattr_id target),
                IntParam guild_id, TimeParam clk]"
  from start_transaction_slots [OF assms(1)]
  have s: "transaction s \<noteq> None" "conn s \<noteq> None" by simp_all
  have "transaction s' \<noteq> None \<and> conn s' \<noteq> None"
    using assms(2)
  proof
    assume "call api cf insert_1 ?args s lg = (Inl e, s', lg')"
    from call_slots [OF this] s show ?thesis by simp
  next
    assume "\<exists>x s1 lg1. call api cf insert_1 ?args s lg = (Inr x, s1, lg1) \<and>
                        call api cf insert_2 ?args s1 lg1 = (Inl e, s', lg')"
    then obtain x s1 lg1 where
      one: "call api cf insert_1 ?args s lg = (Inr x, s1, lg1)" and
      two: "call api cf insert_2 ?args s1 lg1 = (Inl e, s', lg')"
      by blast
    from call_slots [OF one] s have "transaction s1 \<noteq> None" "conn s1 \<noteq> None" by simp_all
    with call_slots [OF two] show ?thesis by simp
  qed
  then obtain t c where tc: "transaction s' = Some t" "conn s' = Some c" by blast
  have "marry api cf instigator target guild_id self lg clk =
       (if is_exception e
        then (case tx_rollback api t c of
                (None, c') \<Rightarrow> (Some e, s'\<lparr>conn := Some c'\<rparr>, lg', Suc clk)
              | (Some r, c') \<Rightarrow> (Some r, s'\<lparr>conn := Some c'\<rparr>, lg', Suc clk))
        else (Some e, s', lg', Suc clk))"
    using assms tc
    by (auto simp: marry_def Let_def utcnow_def marry_inserts_def marry_except_def
        split: option.splits prod.splits)
  with tc show ?thesis by blast
qed

theorem marry_reraises_when_rollback_returns_witness:
  "is_exception (PostgresError ''unique_violation'') \<and>
   marry (pg_api one_partner) casefold_ascii (UserId 1) (UserId 2) 9
     \<lparr>conn = Some taken_pg, transaction = None\<rparr> (Some []) 5
   = (Some (PostgresError ''unique_violation''),
      \<lparr>conn = Some (taken_pg\<lparr>next_tx := 1,
                received := [(insert_1, [IntParam 1, IntParam 2, IntParam 9, TimeParam 5]),
                             (insert_2, [IntParam 1, IntParam 2, IntParam 9, TimeParam 5])]\<rparr>),
        transaction = Some 0\<rparr>,
      Some [Debug insert_1 [IntParam 1, IntParam 2, IntParam 9, TimeParam 5],
            Debug insert_2 [IntParam 1, IntParam 2, IntParam 9, TimeParam 5]], 6) \<and>
   \<not> is_exception CancelledError \<and>
   marry cancelled_api casefold_ascii (UserId 1) (UserId 2) 9
     \<lparr>conn = Some empty_pg, transaction = None\<rparr> (Some []) 0
   = (Some CancelledError,
      \<lparr>conn = Some (empty_pg\<lparr>saved := [(0, [])], next_tx := 1\<rparr>), transaction = Some 0\<rparr>,
      Some [Debug insert_1 [IntParam 1, IntParam 2, IntParam 9, TimeParam 0]], 1)"
proof -
  let ?api = "pg_api one_partner"
  let ?args = "[IntParam 1, IntParam 2, IntParam 9, TimeParam 5]"
  let ?first_args = "[IntParam 1, IntParam 2, IntParam 9, TimeParam 0]"
  let ?s = "\<lparr>conn = Some (taken_pg\<lparr>saved := [(0, [(2, 3, 9, 0), (3, 2, 9, 0)])],
                 next_tx := 1\<rparr>), transaction = Some (0::nat)\<rparr>"
  let ?conn_first = "taken_pg\<lparr>work := [(2, 3, 9, 0), (3, 2, 9, 0), (1, 2, 9, 5)],
              saved := [(0, [(2, 3, 9, 0), (3, 2, 9, 0)])], next_tx := 1,
              received := [(insert_1, ?args)]\<rparr>"
  let ?c = "taken_pg\<lparr>work := [(2, 3, 9, 0), (3, 2, 9, 0), (1, 2, 9, 5)],
              saved := [(0, [(2, 3, 9, 0), (3, 2, 9, 0)])], next_tx := 1,
              received := [(insert_1, ?args), (insert_2, ?args)]\<rparr>"
  let ?rolled_back = "taken_pg\<lparr>next_tx := 1, received := [(insert_1, ?args), (insert_2, ?args)]\<rparr>"
  let ?lg = "Some [Debug insert_1 ?args, Debug insert_2 ?args]"
  have a: "start_transaction ?api \<lparr>conn = Some taken_pg, transaction = None\<rparr> = (None, ?s)"
    by code_simp
  have b1: "call ?api casefold_ascii insert_1
              [IntParam (getattr_id (UserId 1)), IntParam (getattr_id (UserId 2)),
               IntParam 9, TimeParam 5] ?s (Some [])
            = (Inr None, \<lparr>conn = Some ?conn_first, transaction = Some 0\<rparr>,
               Some [Debug insert_1 ?args])"
    by code_simp
  have b2: "call ?api casefold_ascii insert_2
              [IntParam (getattr_id (UserId 1)), IntParam (getattr_id (UserId 2)),
               IntParam 9, TimeParam 5] \<lparr>conn = Some ?conn_first, transaction = Some 0\<rparr>
              (Some [Debug insert_1 ?args])
            = (Inl (PostgresError ''unique_violation''),
               \<lparr>conn = Some ?c, transaction = Some 0\<rparr>, ?lg)"
    by code_simp
  have stmt: "call ?api casefold_ascii insert_1
              [IntParam (getattr_id (UserId 1)), IntParam (getattr_id (UserId 2)),
               IntParam 9, TimeParam 5] ?s (Some [])
            = (Inl (PostgresError ''unique_violation''),
               \<lparr>conn = Some ?c, transaction = Some 0\<rparr>, ?lg) \<or>
         (\<exists>x s1 lg1.
            call ?api casefold_ascii insert_1
              [IntParam (getattr_id (UserId 1)), IntParam (getattr_id (UserId 2)),
               IntParam 9, TimeParam 5] ?s (Some []) = (Inr x, s1, lg1) \<and>
            call ?api casefold_ascii insert_2
              [IntParam (getattr_id (UserId 1)), IntParam (getattr_id (UserId 2)),
               IntParam 9, TimeParam 5] s1 lg1
            = (Inl (PostgresError ''unique_violation''),
               \<lparr>conn = Some ?c, transaction = Some 0\<rparr>, ?lg))"
    using b1 b2 by blast
  have ex: "is_exception (PostgresError ''unique_violation'')" by simp
  have t: "transaction \<lparr>conn = Some ?c, transaction = Some (0::nat)\<rparr> = Some 0"
    and c: "conn \<lparr>conn = Some ?c, transaction = Some (0::nat)\<rparr> = Some ?c"
    by simp_all
  have r: "tx_rollback ?api 0 ?c = (None, ?rolled_back)"
    by code_simp
  from marry_reraises_when_rollback_returns [OF a stmt] ex t c r
  have r1: "marry ?api casefold_ascii (UserId 1) (UserId 2) 9
              \<lparr>conn = Some taken_pg, transaction = None\<rparr> (Some []) 5
            = (Some (PostgresError ''unique_violation''),
               \<lparr>conn = Some ?rolled_back, transaction = Some 0\<rparr>, ?lg, 6)"
    by simp
  let ?started = "\<lparr>conn = Some (empty_pg\<lparr>saved := [(0, [])], next_tx := 1\<rparr>),
              transaction = Some (0::nat)\<rparr>"
  have a0: "start_transaction cancelled_api \<lparr>conn = Some empty_pg, transaction = None\<rparr>
              = (None, ?started)"
    by code_simp
  have stmt0: "call cancelled_api casefold_ascii insert_1
              [IntParam (getattr_id (UserId 1)), IntParam (getattr_id (UserId 2)),
               IntParam 9, TimeParam 0] ?started (Some [])
            = (Inl CancelledError, ?started, Some [Debug insert_1 ?first_args]) \<or>
         (\<exists>x s1 lg1.
            call cancelled_api casefold_ascii insert_1
              [IntParam (getattr_id (UserId 1)), IntParam (getattr_id (UserId 2)),
               IntParam 9, TimeParam 0] ?started (Some []) = (Inr x, s1, lg1) \<and>
            call cancelled_api casefold_ascii insert_2
              [IntParam (getattr_id (UserId 1)), IntParam (getattr_id (UserId 2)),
               IntParam 9, TimeParam 0] s1 lg1
            = (Inl CancelledError, ?started, Some [Debug insert_1 ?first_args]))"
    by (simp add: marry_pg_defs not_read_insert_1 cancelled_api_def empty_pg_def)
  have nex: "\<not> is_exception CancelledError" by simp
  from marry_reraises_when_rollback_returns [OF a0 stmt0] nex
  have r2: "marry cancelled_api casefold_ascii (UserId 1) (UserId 2) 9
              \<lparr>conn = Some empty_pg, transaction = None\<rparr> (Some []) 0
            = (Some CancelledError, ?started, Some [Debug insert_1 ?first_args], 1)"
    by simp
  from ex r1 nex r2 show ?thesis by blast
qed

end
